theory Spec2Isabelle
  imports Complex_Main "HOL-Library.AList"
begin

section \<open>Conventions\<close>

text \<open>
  The program is Python. Its unbounded integers are \<open>int\<close>, its strings \<open>string\<close>. A
  dictionary is an association list in insertion order; every exception the modelled
  code can raise is a value of \<open>error\<close>, and a function that can raise returns
  \<open>error + 'a\<close>.

  Its floating-point numbers are read as real numbers where a rounding error changes a
  result by a rounding error only (the costs). Where a rounding decides a whole number
  or a comparison, it is modelled: the quotient under \<open>np.ceil\<close> in the cable cost
  functions is taken with the rounding of binary64 (\<open>float64\<close> below), and the
  operations of \<open>haversine\<close>, whose result is compared with a threshold, are a parameter
  of the model (\<open>float_ops\<close>).
\<close>

datatype error = KeyError | UnboundLocalError | ZeroDivisionError | ValueError

type_synonym 'v dict = "(int \<times> 'v) list"

definition keys :: "'v dict \<Rightarrow> int list" where
  "keys d = map fst d"

definition getitem :: "'v dict \<Rightarrow> int \<Rightarrow> error + 'v" where
  "getitem d k = (case map_of d k of None \<Rightarrow> Inl KeyError | Some v \<Rightarrow> Inr v)"

subsection \<open>Rounding\<close>

text \<open>
  Rounding to the nearest integer, a tie to the even one: Python's \<open>round\<close> of a float
  to an integer, and the rounding of a significand in binary floating point.
\<close>

definition py_round :: "real \<Rightarrow> int" where
  "py_round x =
     (let f = \<lfloor>x\<rfloor>; r = x - of_int f
      in if r < 1 / 2 then f else if 1 / 2 < r then f + 1
         else if even f then f else f + 1)"

text \<open>
  The binary64 number nearest to a real number (53 significant bits, ties to even), for
  numbers in the normal range; overflow and subnormal numbers are not modelled. A
  decimal literal denotes \<open>float64\<close> of its value; multiplication and division of two
  floats return \<open>float64\<close> of the exact result.
\<close>

definition float64 :: "real \<Rightarrow> real" where
  "float64 x =
     (if x = 0 then 0
      else (let e = \<lfloor>log 2 \<bar>x\<bar>\<rfloor>;
                ulp = 2 powr (of_int e - 52)
            in sgn x * of_int (py_round (\<bar>x\<bar> / ulp)) * ulp))"

definition float_mul :: "real \<Rightarrow> real \<Rightarrow> real" where
  "float_mul x y = float64 (x * y)"

definition float_div :: "real \<Rightarrow> real \<Rightarrow> real" where
  "float_div x y = float64 (x / y)"

section \<open>Cost model (optimise\_combined.py)\<close>

subsection \<open>Present value\<close>

record pv_factors =
  pv_equip :: real
  pv_inst :: real
  pv_ope :: real
  pv_deco :: real

text \<open>
  Modelled from the spec: \<open>present_value_single\<close> of scripts/present\_value.py, which is
  imported by optimise\_combined.py and is not among the sources. The spec describes the
  lifecycle cost as equipment + installation + yearly operating + decommissioning, each
  present-valued to a reference year. The discount factors, which depend on the reference
  year through a schedule the spec does not give, are the parameter \<open>pv\<close>: the factor of
  the yearly operating cost stands for the sum of the discount factors of the operating
  years.
\<close>

definition present_value_single ::
  "(int \<Rightarrow> pv_factors) \<Rightarrow> int \<Rightarrow> real \<Rightarrow> real \<Rightarrow> real \<Rightarrow> real \<Rightarrow> real" where
  "present_value_single pv first_year equip_cost inst_cost ope_cost_yearly deco_cost =
     pv_equip (pv first_year) * equip_cost + pv_inst (pv first_year) * inst_cost
     + pv_ope (pv first_year) * ope_cost_yearly + pv_deco (pv first_year) * deco_cost"

text \<open>Discounting multiplies by positive factors; no operating year at all gives 0.\<close>

definition discounting :: "pv_factors \<Rightarrow> bool" where
  "discounting f = (0 < pv_equip f \<and> 0 < pv_inst f \<and> 0 \<le> pv_ope f \<and> 0 < pv_deco f)"

subsection \<open>Onshore substation and wind farm\<close>

definition onss_cost_lin :: "(int \<Rightarrow> pv_factors) \<Rightarrow> int \<Rightarrow> real \<Rightarrow> real \<Rightarrow> real" where
  "onss_cost_lin pv first_year capacity threshold =
     (let threshold_equip_cost = 0.02287;
          equip_cost = (capacity - threshold) * threshold_equip_cost;
          ope_cost_yearly = 0.015 * equip_cost;
          inst_cost = 0;
          deco_cost = 0
      in present_value_single pv first_year equip_cost inst_cost ope_cost_yearly deco_cost)"

text \<open>Division by a zero total capacity raises in Python.\<close>

definition wf_cost_lin :: "real \<Rightarrow> real \<Rightarrow> real \<Rightarrow> error + real" where
  "wf_cost_lin wf_cost wf_total_cap wf_cap =
     (if wf_total_cap = 0 then Inl ZeroDivisionError
      else Inr (wf_cost * (wf_cap / wf_total_cap)))"

subsection \<open>Cables\<close>

text \<open>
  In each cable function \<open>parallel_cables\<close> is assigned in the branches of
  \<open>if function == "lin" ... elif function == "ceil"\<close> only; with any other argument the
  next statement reads an unassigned local, which raises UnboundLocalError. The quotient
  \<open>capacity / (cable_capacity * capacity_factor)\<close> is the floating-point one: its
  ceiling is a number of cables.
\<close>

definition ec1_cost_fun ::
  "(int \<Rightarrow> pv_factors) \<Rightarrow> int \<Rightarrow> real \<Rightarrow> real \<Rightarrow> string \<Rightarrow> error + real" where
  "ec1_cost_fun pv first_year distance capacity function =
     (let cable_length = 1.10 * distance;
          cable_capacity = 348;
          cable_equip_cost = 0.860;
          cable_inst_cost = 0.540;
          capacity_factor = float64 0.95;
          parallel_cables =
            (if function = ''lin''
               then Some (float_div capacity (float_mul cable_capacity capacity_factor))
             else if function = ''ceil''
               then Some (of_int
                 \<lceil>float_div capacity (float_mul cable_capacity capacity_factor)\<rceil>)
             else None)
      in case parallel_cables of
           None \<Rightarrow> Inl UnboundLocalError
         | Some parallel_cables \<Rightarrow>
             (let equip_cost = parallel_cables * cable_length * cable_equip_cost;
                  inst_cost = parallel_cables * cable_length * cable_inst_cost;
                  ope_cost_yearly = 0.2 * (1 / 100) * equip_cost;
                  deco_cost = 0.5 * inst_cost
              in Inr (present_value_single pv first_year
                        equip_cost inst_cost ope_cost_yearly deco_cost)))"

definition ec2_cost_fun ::
  "(int \<Rightarrow> pv_factors) \<Rightarrow> int \<Rightarrow> real \<Rightarrow> real \<Rightarrow> string \<Rightarrow> error + real" where
  "ec2_cost_fun pv first_year distance capacity function =
     (let cable_length = 1.10 * distance + 2;
          cable_capacity = 348;
          cable_equip_cost = 0.860;
          cable_inst_cost = 0.540;
          capacity_factor = float64 0.95;
          parallel_cables =
            (if function = ''lin''
               then Some (float_div capacity (float_mul cable_capacity capacity_factor))
             else if function = ''ceil''
               then Some (of_int
                 \<lceil>float_div capacity (float_mul cable_capacity capacity_factor)\<rceil>)
             else None)
      in case parallel_cables of
           None \<Rightarrow> Inl UnboundLocalError
         | Some parallel_cables \<Rightarrow>
             (let equip_cost = parallel_cables * cable_length * cable_equip_cost;
                  inst_cost = parallel_cables * cable_length * cable_inst_cost;
                  ope_cost_yearly = 0.2 * (1 / 100) * equip_cost;
                  deco_cost = 0.5 * inst_cost
              in Inr (present_value_single pv first_year
                        equip_cost inst_cost ope_cost_yearly deco_cost)))"

definition ec3_cost_fun ::
  "(int \<Rightarrow> pv_factors) \<Rightarrow> int \<Rightarrow> real \<Rightarrow> real \<Rightarrow> string \<Rightarrow> error + real" where
  "ec3_cost_fun pv first_year distance capacity function =
     (let cable_length = 1.10 * distance + 2;
          cable_capacity = 348;
          cable_equip_cost = 0.860;
          cable_inst_cost = 0.540;
          capacity_factor = float64 0.95;
          parallel_cables =
            (if function = ''lin''
               then Some (float_div capacity (float_mul cable_capacity capacity_factor))
             else if function = ''ceil''
               then Some (of_int
                 \<lceil>float_div capacity (float_mul cable_capacity capacity_factor)\<rceil>)
             else None)
      in case parallel_cables of
           None \<Rightarrow> Inl UnboundLocalError
         | Some parallel_cables \<Rightarrow>
             (let equip_cost = parallel_cables * cable_length * cable_equip_cost;
                  inst_cost = parallel_cables * cable_length * cable_inst_cost;
                  ope_cost_yearly = 0.2 * (1 / 100) * equip_cost;
                  deco_cost = 0.5 * inst_cost
              in Inr (present_value_single pv first_year
                        equip_cost inst_cost ope_cost_yearly deco_cost)))"

definition onc_cost_fun ::
  "(int \<Rightarrow> pv_factors) \<Rightarrow> int \<Rightarrow> real \<Rightarrow> real \<Rightarrow> string \<Rightarrow> error + real" where
  "onc_cost_fun pv first_year distance capacity function =
     (let cable_length = 1.10 * distance;
          cable_capacity = 348;
          cable_equip_cost = 0.860;
          cable_inst_cost = 0.540 * 0.5;
          capacity_factor = float64 0.95;
          parallel_cables =
            (if function = ''lin''
               then Some (float_div capacity (float_mul cable_capacity capacity_factor))
             else if function = ''ceil''
               then Some (of_int
                 \<lceil>float_div capacity (float_mul cable_capacity capacity_factor)\<rceil>)
             else None)
      in case parallel_cables of
           None \<Rightarrow> Inl UnboundLocalError
         | Some parallel_cables \<Rightarrow>
             (let equip_cost = parallel_cables * cable_length * cable_equip_cost;
                  inst_cost = parallel_cables * cable_length * cable_inst_cost;
                  ope_cost_yearly = 0.2 * (1 / 100) * equip_cost;
                  deco_cost = 0.5 * inst_cost
              in Inr (present_value_single pv first_year
                        equip_cost inst_cost ope_cost_yearly deco_cost)))"

section \<open>Support structure (scripts/wt\_cost.py)\<close>

text \<open>A Python function that falls off its last \<open>elif\<close> returns None.\<close>

definition check_supp :: "real \<Rightarrow> string option" where
  "check_supp water_depth =
     (if water_depth < 25 then Some ''monopile''
      else if 25 \<le> water_depth \<and> water_depth < 55 then Some ''jacket''
      else if 55 \<le> water_depth then Some ''floating''
      else None)"

text \<open>
  The coefficient tables of \<open>calc_equip_cost\<close>, one per reference year; for any other
  year neither local is assigned.
\<close>

definition support_structure_coeff :: "int \<Rightarrow> (string \<times> real \<times> real \<times> real) list option" where
  "support_structure_coeff first_year =
     (if first_year = 2030 then
        Some [(''monopile'', (181, 552, 370)),
              (''jacket'', (103, - 2043, 478)),
              (''floating'', (0, 697, 1223))]
      else if first_year = 2040 then
        Some [(''monopile'', (176, 536, 270)),
              (''jacket'', (100, - 1986, 375)),
              (''floating'', (0, 678, 1034))]
      else if first_year = 2050 then
        Some [(''monopile'', (171, 521, 170)),
              (''jacket'', (97, - 1930, 658)),
              (''floating'', (0, 658, 844))]
      else None)"

definition turbine_coeff :: "int \<Rightarrow> real option" where
  "turbine_coeff first_year =
     (if first_year = 2030 then Some (1200 * 1000)
      else if first_year = 2040 then Some (1100 * 1000)
      else if first_year = 2050 then Some (1000 * 1000)
      else None)"

definition calc_equip_cost ::
  "int \<Rightarrow> real \<Rightarrow> string option \<Rightarrow> int \<Rightarrow> real \<Rightarrow> error + (real \<times> real)" where
  "calc_equip_cost first_year water_depth support_structure ice_cover turbine_capacity =
     (case (support_structure_coeff first_year, turbine_coeff first_year) of
        (Some coeff, Some tc) \<Rightarrow>
          (case support_structure of
             None \<Rightarrow> Inl KeyError
           | Some s \<Rightarrow>
               (case map_of coeff s of
                  None \<Rightarrow> Inl KeyError
                | Some (c1, c2, c3) \<Rightarrow>
                    (let supp_cost =
                           turbine_capacity * (c1 * water_depth\<^sup>2 + c2 * water_depth + c3 * 1000);
                         tc = (if ice_cover = 1 then tc * (1 + 0.4 * 0.5714) else tc);
                         turbine_cost = turbine_capacity * tc
                     in Inr (supp_cost * (1 / 1000000), turbine_cost * (1 / 1000000)))))
      | _ \<Rightarrow> Inl UnboundLocalError)"

section \<open>Model parameters and hub constraints (opt\_model)\<close>

definition zero_th :: real where
  "zero_th = 1 / 1000"

definition wt_cap :: int where
  "wt_cap = 15"

definition eh_cap_lim :: real where
  "eh_cap_lim = 2500"

text \<open>
  An assignment gives every hub a capacity and an activation value; the domain
  \<open>Binary\<close> of the activation variable admits 0 and 1 only.
\<close>

record hub_assignment =
  eh_cap_var :: "int \<Rightarrow> real"
  eh_active_bin_var :: "int \<Rightarrow> real"

definition binary_domain :: "real \<Rightarrow> bool" where
  "binary_domain b = (b = 0 \<or> b = 1)"

definition max_eh_cap_rule :: "hub_assignment \<Rightarrow> int \<Rightarrow> bool" where
  "max_eh_cap_rule model eh = (eh_cap_var model eh \<le> eh_cap_lim)"

definition eh_active_rule :: "hub_assignment \<Rightarrow> int \<Rightarrow> bool" where
  "eh_active_rule model eh =
     (eh_cap_var model eh \<le> eh_active_bin_var model eh * eh_cap_lim + zero_th)"

section \<open>Viable connections (optimise\_combined.py)\<close>

text \<open>
  The floating-point operations that \<open>haversine\<close> is computed with. The source does
  not fix their results (numpy's elementary functions are not correctly rounded), and
  the computed distance is compared with a threshold, so they are a parameter of the
  model. \<open>exact_ops\<close> is the arithmetic of the real numbers.
\<close>

record float_ops =
  np_radians :: "real \<Rightarrow> real"
  np_sin :: "real \<Rightarrow> real"
  np_cos :: "real \<Rightarrow> real"
  np_arcsin :: "real \<Rightarrow> real"
  np_sqrt :: "real \<Rightarrow> real"
  f_add :: "real \<Rightarrow> real \<Rightarrow> real"
  f_sub :: "real \<Rightarrow> real \<Rightarrow> real"
  f_mul :: "real \<Rightarrow> real \<Rightarrow> real"
  f_div :: "real \<Rightarrow> real \<Rightarrow> real"
  f_pow :: "real \<Rightarrow> nat \<Rightarrow> real"

definition radians :: "real \<Rightarrow> real" where
  "radians deg = deg * pi / 180"

definition exact_ops :: float_ops where
  "exact_ops =
     \<lparr>np_radians = radians, np_sin = sin, np_cos = cos, np_arcsin = arcsin, np_sqrt = sqrt,
      f_add = (\<lambda>x y. x + y), f_sub = (\<lambda>x y. x - y), f_mul = (\<lambda>x y. x * y),
      f_div = (\<lambda>x y. x / y), f_pow = (\<lambda>x n. x ^ n)\<rparr>"

definition haversine :: "float_ops \<Rightarrow> real \<Rightarrow> real \<Rightarrow> real \<Rightarrow> real \<Rightarrow> real" where
  "haversine fp lon1 lat1 lon2 lat2 =
     (let lon1 = np_radians fp lon1; lat1 = np_radians fp lat1;
          lon2 = np_radians fp lon2; lat2 = np_radians fp lat2;
          dlon = f_sub fp lon2 lon1;
          dlat = f_sub fp lat2 lat1;
          a = f_add fp (f_pow fp (np_sin fp (f_div fp dlat 2.0)) 2)
                (f_mul fp (f_mul fp (np_cos fp lat1) (np_cos fp lat2))
                   (f_pow fp (np_sin fp (f_div fp dlon 2.0)) 2));
          c = f_mul fp 2 (np_arcsin fp (np_sqrt fp a));
          r = 6371
      in f_mul fp c r)"

text \<open>
  The four functions \<open>find_viable_*\<close> run the same loop over the candidate pairs, with
  their own threshold: four dictionary reads, left to right, then \<open>haversine\<close>, and the
  pair is appended to \<open>connections\<close> when its distance is at most the threshold.
\<close>

fun viable_loop ::
  "float_ops \<Rightarrow> real \<Rightarrow> real dict \<Rightarrow> real dict \<Rightarrow> real dict \<Rightarrow> real dict \<Rightarrow>
   (int \<times> int) list \<Rightarrow> (int \<times> int) list \<Rightarrow> error + (int \<times> int) list" where
  "viable_loop fp limit lon1 lat1 lon2 lat2 [] connections = Inr connections"
| "viable_loop fp limit lon1 lat1 lon2 lat2 ((id1, id2) # rest) connections =
     (case getitem lon1 id1 of Inl e \<Rightarrow> Inl e | Inr x1 \<Rightarrow>
      case getitem lat1 id1 of Inl e \<Rightarrow> Inl e | Inr y1 \<Rightarrow>
      case getitem lon2 id2 of Inl e \<Rightarrow> Inl e | Inr x2 \<Rightarrow>
      case getitem lat2 id2 of Inl e \<Rightarrow> Inl e | Inr y2 \<Rightarrow>
        (let distance = haversine fp x1 y1 x2 y2
         in if distance \<le> limit
            then viable_loop fp limit lon1 lat1 lon2 lat2 rest (connections @ [(id1, id2)])
            else viable_loop fp limit lon1 lat1 lon2 lat2 rest connections))"

definition find_viable_ec1 ::
  "float_ops \<Rightarrow> real dict \<Rightarrow> real dict \<Rightarrow> real dict \<Rightarrow> real dict \<Rightarrow>
   error + (int \<times> int) list" where
  "find_viable_ec1 fp wf_lon wf_lat eh_lon eh_lat =
     viable_loop fp 250 wf_lon wf_lat eh_lon eh_lat
       (List.product (keys wf_lon) (keys eh_lon)) []"

definition find_viable_ec2 ::
  "float_ops \<Rightarrow> real dict \<Rightarrow> real dict \<Rightarrow> real dict \<Rightarrow> real dict \<Rightarrow>
   error + (int \<times> int) list" where
  "find_viable_ec2 fp eh_lon eh_lat onss_lon onss_lat =
     viable_loop fp 250 eh_lon eh_lat onss_lon onss_lat
       (List.product (keys eh_lon) (keys onss_lon)) []"

definition find_viable_ec3 ::
  "float_ops \<Rightarrow> real dict \<Rightarrow> real dict \<Rightarrow> real dict \<Rightarrow> real dict \<Rightarrow>
   error + (int \<times> int) list" where
  "find_viable_ec3 fp wf_lon wf_lat onss_lon onss_lat =
     viable_loop fp 500 wf_lon wf_lat onss_lon onss_lat
       (List.product (keys wf_lon) (keys onss_lon)) []"

text \<open>
  \<open>find_viable_onc\<close> skips a pair of equal ids before it reads anything; the skipped
  pairs are filtered out of the candidates here.
\<close>

definition find_viable_onc ::
  "float_ops \<Rightarrow> real dict \<Rightarrow> real dict \<Rightarrow> error + (int \<times> int) list" where
  "find_viable_onc fp onss_lon onss_lat =
     viable_loop fp 250 onss_lon onss_lat onss_lon onss_lat
       (filter (\<lambda>(onss_id1, onss_id2). onss_id1 \<noteq> onss_id2)
          (List.product (keys onss_lon) (keys onss_lon))) []"

subsection \<open>From the datasets to the viable sets (opt\_model)\<close>

text \<open>
  A dataset row starts with id, ISO country code, longitude and latitude; the columns
  after them differ by class. The rows are given with the types the loading loops
  convert them to.
\<close>

record entity_row =
  row_id :: int
  row_iso :: string
  row_lon :: real
  row_lat :: real

record wf_row = entity_row +
  row_cap :: real
  row_cost_1 :: real
  row_cost_2 :: real
  row_cost_3 :: real

record eh_row = entity_row +
  row_wdepth :: int
  row_icover :: int
  row_pdist :: real

record onss_row = entity_row +
  row_thold :: real

definition iso_to_int_mp :: "(string \<times> int) list" where
  "iso_to_int_mp =
     [(''DE'', 1), (''DK'', 2), (''EE'', 3), (''FI'', 4),
      (''LV'', 5), (''LT'', 6), (''PL'', 7), (''SE'', 8)]"

text \<open>
  The dictionaries the three loading loops fill, named with the suffix \<open>_dict\<close>. An
  assignment \<open>d[id] = v\<close> replaces the value of a key already there and appends a new key;
  a country code outside the table raises KeyError.
\<close>

record wf_dicts =
  wf_iso_dict :: "int dict"
  wf_lon_dict :: "real dict"
  wf_lat_dict :: "real dict"
  wf_cap_dict :: "real dict"
  wf_cost_1_dict :: "real dict"
  wf_cost_2_dict :: "real dict"
  wf_cost_3_dict :: "real dict"

record eh_dicts =
  eh_iso_dict :: "int dict"
  eh_lon_dict :: "real dict"
  eh_lat_dict :: "real dict"
  eh_wdepth_dict :: "int dict"
  eh_icover_dict :: "int dict"
  eh_pdist_dict :: "real dict"

record onss_dicts =
  onss_iso_dict :: "int dict"
  onss_lon_dict :: "real dict"
  onss_lat_dict :: "real dict"
  onss_thold_dict :: "real dict"

fun load_wf :: "wf_row list \<Rightarrow> wf_dicts \<Rightarrow> error + wf_dicts" where
  "load_wf [] ds = Inr ds"
| "load_wf (data # rest) ds =
     (case map_of iso_to_int_mp (row_iso data) of
        None \<Rightarrow> Inl KeyError
      | Some country \<Rightarrow>
          load_wf rest
            \<lparr>wf_iso_dict = AList.update (row_id data) country (wf_iso_dict ds),
             wf_lon_dict = AList.update (row_id data) (row_lon data) (wf_lon_dict ds),
             wf_lat_dict = AList.update (row_id data) (row_lat data) (wf_lat_dict ds),
             wf_cap_dict = AList.update (row_id data) (row_cap data) (wf_cap_dict ds),
             wf_cost_1_dict = AList.update (row_id data) (row_cost_1 data) (wf_cost_1_dict ds),
             wf_cost_2_dict = AList.update (row_id data) (row_cost_2 data) (wf_cost_2_dict ds),
             wf_cost_3_dict = AList.update (row_id data) (row_cost_3 data) (wf_cost_3_dict ds)\<rparr>)"

fun load_eh :: "eh_row list \<Rightarrow> eh_dicts \<Rightarrow> error + eh_dicts" where
  "load_eh [] ds = Inr ds"
| "load_eh (data # rest) ds =
     (case map_of iso_to_int_mp (row_iso data) of
        None \<Rightarrow> Inl KeyError
      | Some country \<Rightarrow>
          load_eh rest
            \<lparr>eh_iso_dict = AList.update (row_id data) country (eh_iso_dict ds),
             eh_lon_dict = AList.update (row_id data) (row_lon data) (eh_lon_dict ds),
             eh_lat_dict = AList.update (row_id data) (row_lat data) (eh_lat_dict ds),
             eh_wdepth_dict = AList.update (row_id data) (row_wdepth data) (eh_wdepth_dict ds),
             eh_icover_dict = AList.update (row_id data) (row_icover data) (eh_icover_dict ds),
             eh_pdist_dict = AList.update (row_id data) (row_pdist data) (eh_pdist_dict ds)\<rparr>)"

fun load_onss :: "onss_row list \<Rightarrow> onss_dicts \<Rightarrow> error + onss_dicts" where
  "load_onss [] ds = Inr ds"
| "load_onss (data # rest) ds =
     (case map_of iso_to_int_mp (row_iso data) of
        None \<Rightarrow> Inl KeyError
      | Some country \<Rightarrow>
          load_onss rest
            \<lparr>onss_iso_dict = AList.update (row_id data) country (onss_iso_dict ds),
             onss_lon_dict = AList.update (row_id data) (row_lon data) (onss_lon_dict ds),
             onss_lat_dict = AList.update (row_id data) (row_lat data) (onss_lat_dict ds),
             onss_thold_dict = AList.update (row_id data) (row_thold data) (onss_thold_dict ds)\<rparr>)"

text \<open>
  Each dictionary initialises a Pyomo \<open>Param\<close> declared \<open>within\<close> a domain; a value
  outside the domain raises ValueError when the parameter is built. The domain
  \<open>Binary\<close> is \<open>binary_domain\<close> above.
\<close>

definition NonNegativeReals :: "real \<Rightarrow> bool" where
  "NonNegativeReals x = (0 \<le> x)"

definition NonNegativeIntegers :: "real \<Rightarrow> bool" where
  "NonNegativeIntegers x = (0 \<le> x \<and> x = of_int \<lfloor>x\<rfloor>)"

definition Param_within :: "(real \<Rightarrow> bool) \<Rightarrow> real dict \<Rightarrow> bool" where
  "Param_within domain d = list_all (\<lambda>(k, v). domain v) d"

definition Param_within_int :: "(real \<Rightarrow> bool) \<Rightarrow> int dict \<Rightarrow> bool" where
  "Param_within_int domain d = list_all (\<lambda>(k, v). domain (real_of_int v)) d"

definition params_in_domain :: "wf_dicts \<Rightarrow> eh_dicts \<Rightarrow> onss_dicts \<Rightarrow> bool" where
  "params_in_domain wf_d eh_d onss_d =
     (Param_within_int NonNegativeIntegers (wf_iso_dict wf_d)
      \<and> Param_within NonNegativeReals (wf_lon_dict wf_d)
      \<and> Param_within NonNegativeReals (wf_lat_dict wf_d)
      \<and> Param_within NonNegativeIntegers (wf_cap_dict wf_d)
      \<and> Param_within NonNegativeReals (wf_cost_1_dict wf_d)
      \<and> Param_within NonNegativeReals (wf_cost_2_dict wf_d)
      \<and> Param_within NonNegativeReals (wf_cost_3_dict wf_d)
      \<and> Param_within_int NonNegativeIntegers (eh_iso_dict eh_d)
      \<and> Param_within NonNegativeReals (eh_lon_dict eh_d)
      \<and> Param_within NonNegativeReals (eh_lat_dict eh_d)
      \<and> Param_within_int NonNegativeIntegers (eh_wdepth_dict eh_d)
      \<and> Param_within_int binary_domain (eh_icover_dict eh_d)
      \<and> Param_within NonNegativeIntegers (eh_pdist_dict eh_d)
      \<and> Param_within_int NonNegativeIntegers (onss_iso_dict onss_d)
      \<and> Param_within NonNegativeReals (onss_lon_dict onss_d)
      \<and> Param_within NonNegativeReals (onss_lat_dict onss_d)
      \<and> Param_within NonNegativeIntegers (onss_thold_dict onss_d))"

record viable_sets =
  viable_ec1_ids :: "(int \<times> int) list"
  viable_ec2_ids :: "(int \<times> int) list"
  viable_ec3_ids :: "(int \<times> int) list"
  viable_onc_ids :: "(int \<times> int) list"
  wf_iso :: "int dict"
  eh_iso :: "int dict"
  onss_iso :: "int dict"

text \<open>
  \<open>opt_model\<close> up to its viable sets. \<open>cross_border\<close> selects the table of country
  fractions (with a value other than 0 and 1 the table is unassigned when it is read);
  the datasets are loaded; the parameters are built, with their domain checks; the four
  viable sets are computed from the coordinates. The result keeps the country
  parameters beside the viable sets.
\<close>

definition opt_model_viable ::
  "float_ops \<Rightarrow> int \<Rightarrow> wf_row list \<Rightarrow> eh_row list \<Rightarrow> onss_row list \<Rightarrow>
   error + viable_sets" where
  "opt_model_viable fp cross_border wf_dataset eh_dataset onss_dataset =
     (if cross_border \<noteq> 0 \<and> cross_border \<noteq> 1 then Inl UnboundLocalError
      else
        case load_wf wf_dataset
               \<lparr>wf_iso_dict = [], wf_lon_dict = [], wf_lat_dict = [], wf_cap_dict = [],
                wf_cost_1_dict = [], wf_cost_2_dict = [], wf_cost_3_dict = []\<rparr> of
          Inl e \<Rightarrow> Inl e | Inr wf_d \<Rightarrow>
        case load_eh eh_dataset
               \<lparr>eh_iso_dict = [], eh_lon_dict = [], eh_lat_dict = [], eh_wdepth_dict = [],
                eh_icover_dict = [], eh_pdist_dict = []\<rparr> of
          Inl e \<Rightarrow> Inl e | Inr eh_d \<Rightarrow>
        case load_onss onss_dataset
               \<lparr>onss_iso_dict = [], onss_lon_dict = [], onss_lat_dict = [],
                onss_thold_dict = []\<rparr> of
          Inl e \<Rightarrow> Inl e | Inr onss_d \<Rightarrow>
        if \<not> params_in_domain wf_d eh_d onss_d then Inl ValueError
        else
        case find_viable_ec1 fp (wf_lon_dict wf_d) (wf_lat_dict wf_d)
               (eh_lon_dict eh_d) (eh_lat_dict eh_d) of
          Inl e \<Rightarrow> Inl e | Inr viable_ec1 \<Rightarrow>
        case find_viable_ec2 fp (eh_lon_dict eh_d) (eh_lat_dict eh_d)
               (onss_lon_dict onss_d) (onss_lat_dict onss_d) of
          Inl e \<Rightarrow> Inl e | Inr viable_ec2 \<Rightarrow>
        case find_viable_ec3 fp (wf_lon_dict wf_d) (wf_lat_dict wf_d)
               (onss_lon_dict onss_d) (onss_lat_dict onss_d) of
          Inl e \<Rightarrow> Inl e | Inr viable_ec3 \<Rightarrow>
        case find_viable_onc fp (onss_lon_dict onss_d) (onss_lat_dict onss_d) of
          Inl e \<Rightarrow> Inl e | Inr viable_onc \<Rightarrow>
            Inr \<lparr>viable_ec1_ids = viable_ec1, viable_ec2_ids = viable_ec2,
                 viable_ec3_ids = viable_ec3, viable_onc_ids = viable_onc,
                 wf_iso = wf_iso_dict wf_d, eh_iso = eh_iso_dict eh_d,
                 onss_iso = onss_iso_dict onss_d\<rparr>)"

section \<open>Multi-stage run (solve\_multi\_stage)\<close>

text \<open>
  A capacity variable is named by the name of its Pyomo component and its index, an
  entity id or a pair of ids. \<open>indices\<close> gives the index list of each component; the
  lower bounds and the values of the variables are functions of name and index.
\<close>

datatype index = Entity int | Connection int int

type_synonym var_store = "string \<Rightarrow> index \<Rightarrow> real"

datatype solver_status = Status_ok | Status_warning | Status_error | Status_aborted | Status_unknown

text \<open>
  The external solver: from the year's parameters and the current lower bounds to a
  status and the values it loads into the variables.
\<close>

type_synonym solver = "int \<Rightarrow> var_store \<Rightarrow> solver_status \<times> var_store"

definition capacity_vars :: "string list" where
  "capacity_vars =
     [''onss_cap_var'', ''onc_cap_var'', ''wf_cap_var'', ''eh_cap_var'',
      ''ec1_cap_var'', ''ec2_cap_var'', ''ec3_cap_var'']"

text \<open>
  \<open>prev_capacity\<close> is a dictionary of dictionaries under the seven names of
  \<open>capacity_vars\<close>, in every stage; it is a function of the name here.
\<close>

type_synonym prev_capacity = "string \<Rightarrow> (index \<times> int) list"

definition enforce_increase_variables ::
  "(string \<Rightarrow> index list) \<Rightarrow> prev_capacity \<Rightarrow> var_store \<Rightarrow> var_store" where
  "enforce_increase_variables indices prev_capacity lb =
     fold (\<lambda>var_name lb.
        fold (\<lambda>index lb.
           (let prev_cap = (case map_of (prev_capacity var_name) index of
                              None \<Rightarrow> 0 | Some p \<Rightarrow> p)
            in if real_of_int prev_cap > zero_th
               then lb(var_name := (lb var_name)(index := real_of_int prev_cap))
               else lb))
          (indices var_name) lb)
       capacity_vars lb"

text \<open>
  The dictionary comprehension
  \<open>{index: round(var[index].value) for index in var if var[index].value > zero_th}\<close>.
\<close>

definition record_capacity :: "(string \<Rightarrow> index list) \<Rightarrow> var_store \<Rightarrow> prev_capacity" where
  "record_capacity indices val var_name =
     map (\<lambda>index. (index, py_round (val var_name index)))
       (filter (\<lambda>index. val var_name index > zero_th) (indices var_name))"

record stage =
  stage_year :: int
  stage_status :: solver_status
  stage_value :: var_store
  stage_lb :: var_store

text \<open>
  The loop over the years. A stage with status ok records the capacities and raises the
  lower bounds; any other status leaves both as they are, and the loop goes on. Each
  stage is reported with the values the solver returned and the lower bounds after it.
  \<open>save_results\<close>, called in a solved stage, writes files and leaves the model as it
  is; it has no part in the loop's state.
\<close>

fun stages_loop ::
  "(string \<Rightarrow> index list) \<Rightarrow> solver \<Rightarrow> int list \<Rightarrow> var_store \<Rightarrow> prev_capacity \<Rightarrow> stage list" where
  "stages_loop indices solve [] lb prev_capacity = []"
| "stages_loop indices solve (year # years) lb prev_capacity =
     (let results = solve year lb
      in if fst results = Status_ok
         then (let prev_capacity = record_capacity indices (snd results);
                   lb' = enforce_increase_variables indices prev_capacity lb
               in \<lparr>stage_year = year, stage_status = fst results,
                    stage_value = snd results, stage_lb = lb'\<rparr>
                  # stages_loop indices solve years lb' prev_capacity)
         else \<lparr>stage_year = year, stage_status = fst results,
                stage_value = snd results, stage_lb = lb\<rparr>
              # stages_loop indices solve years lb prev_capacity)"

text \<open>
  Every capacity variable is declared within NonNegativeReals, some with bounds (0, 0):
  the lower bounds start at 0, and \<open>prev_capacity\<close> starts with 0 for every index.
\<close>

definition solve_multi_stage :: "(string \<Rightarrow> index list) \<Rightarrow> solver \<Rightarrow> stage list" where
  "solve_multi_stage indices solve =
     stages_loop indices solve [2030, 2040, 2050] (\<lambda>var_name index. 0)
       (\<lambda>var_name. map (\<lambda>index. (index, 0)) (indices var_name))"

text \<open>The solver keeps to the lower bounds of the variables whenever it reports ok.\<close>

definition respects_bounds :: "(string \<Rightarrow> index list) \<Rightarrow> solver \<Rightarrow> bool" where
  "respects_bounds indices solve =
     (\<forall>year lb. fst (solve year lb) = Status_ok \<longrightarrow>
        (\<forall>var_name \<in> set capacity_vars. \<forall>index \<in> set (indices var_name).
           lb var_name index \<le> snd (solve year lb) var_name index))"

section \<open>Result extraction\<close>

definition nearest_wt_cap :: "real \<Rightarrow> int" where
  "nearest_wt_cap cap = \<lceil>cap / of_int wt_cap\<rceil> * wt_cap"

section \<open>The cable cost as the specification words it\<close>


definition parallel_cables_spec :: "bool \<Rightarrow> real \<Rightarrow> real" where
  "parallel_cables_spec ceiling_form capacity =
     (let ratio = float_div capacity (float_mul 348 (float64 0.95))
      in if ceiling_form then of_int \<lceil>ratio\<rceil> else ratio)"

section \<open>The great-circle distance as the specification words it\<close>


section \<open>Properties\<close>

subsection \<open>Rounding\<close>

lemma py_round_ge_floor: "\<lfloor>x\<rfloor> \<le> py_round x"
  by (simp add: py_round_def Let_def)

lemma py_round_nonneg: "0 \<le> x \<Longrightarrow> 0 \<le> py_round x"
  using py_round_ge_floor [of x] by (simp add: order_trans [of 0 "\<lfloor>x\<rfloor>"])

lemma py_round_near:
  assumes "real_of_int n - 1 / 2 < q" "q < real_of_int n + 1 / 2"
  shows "py_round q = n"
proof (cases "real_of_int n \<le> q")
  case True
  with assms have "\<lfloor>q\<rfloor> = n" by (intro floor_unique) linarith+
  with assms show ?thesis by (simp add: py_round_def Let_def)
next
  case False
  with assms have "real_of_int (n - 1) \<le> q" "q < real_of_int (n - 1) + 1" by simp_all
  then have f: "\<lfloor>q\<rfloor> = n - 1" by (rule floor_unique)
  with assms False have "1 / 2 < q - real_of_int (n - 1)" by simp
  with f show ?thesis by (simp add: py_round_def Let_def)
qed

lemma float64_zero: "float64 0 = 0"
  by (simp add: float64_def)

lemma float64_nonneg: "0 \<le> x \<Longrightarrow> 0 \<le> float64 x"
  by (auto simp: float64_def Let_def intro!: mult_nonneg_nonneg py_round_nonneg)

lemma float64_dyadic:
  assumes "2 ^ 52 \<le> x * 2 ^ k" "x * 2 ^ k < 2 ^ 53"
  shows "float64 x = real_of_int (py_round (x * 2 ^ k)) / 2 ^ k"
proof -
  have pos: "0 < x"
  proof (rule ccontr)
    assume "\<not> 0 < x"
    then have "x * 2 ^ k \<le> 0" by (simp add: mult_le_0_iff)
    with assms(1) show False by (smt (verit) zero_less_power)
  qed
  have "2 powr (52 - real k) \<le> x"
  proof -
    have "2 powr (52 - real k) = 2 ^ 52 / 2 ^ k"
      by (simp add: powr_diff powr_realpow)
    also have "\<dots> \<le> x" using assms(1) by (simp add: divide_le_eq)
    finally show ?thesis .
  qed
  moreover have "x < 2 powr (52 - real k + 1)"
  proof -
    have "x < 2 ^ 53 / 2 ^ k" using assms(2) by (simp add: less_divide_eq)
    also have "\<dots> = 2 powr (53 - real k)"
      by (simp add: powr_diff powr_realpow)
    finally show ?thesis by simp
  qed
  ultimately have "\<lfloor>log 2 x\<rfloor> = 52 - int k"
    using pos by (intro floor_unique) (simp_all add: le_log_iff log_less_iff)
  then have e: "\<lfloor>log 2 \<bar>x\<bar>\<rfloor> = 52 - int k" using pos by simp
  have ulp: "2 powr (real_of_int (52 - int k) - 52) = 1 / 2 ^ k"
    by (simp add: powr_minus powr_realpow divide_simps)
  from pos show ?thesis
    unfolding float64_def Let_def e ulp by simp
qed

lemma float64_095: "float64 0.95 = 8556839292003942 / 2 ^ 53"
proof -
  have "py_round (0.95 * 2 ^ 53) = 8556839292003942"
    by (rule py_round_near) simp_all
  with float64_dyadic [of "0.95" 53] show ?thesis by simp
qed

lemma float64_348_095: "float64 (348 * float64 0.95) = 5815976706283929 / 2 ^ 44"
proof -
  have "py_round (348 * (8556839292003942 / 2 ^ 53) * 2 ^ 44) = 5815976706283929"
    by (rule py_round_near) simp_all
  with float64_dyadic [of "348 * (8556839292003942 / 2 ^ 53)" 44]
  have "float64 (348 * (8556839292003942 / 2 ^ 53)) = 5815976706283929 / 2 ^ 44" by simp
  then show ?thesis by (simp only: float64_095)
qed

lemma float64_1653: "float64 (1653 / float64 (348 * float64 0.95)) = 5629499534213121 / 2 ^ 50"
proof -
  have "py_round (1653 / (5815976706283929 / 2 ^ 44) * 2 ^ 50) = 5629499534213121"
    by (rule py_round_near) simp_all
  with float64_dyadic [of "1653 / (5815976706283929 / 2 ^ 44)" 50]
  have "float64 (1653 / (5815976706283929 / 2 ^ 44)) = 5629499534213121 / 2 ^ 50" by simp
  then show ?thesis by (simp only: float64_348_095)
qed

lemma float64_ceil_1653: "\<lceil>float64 (1653 / float64 (348 * float64 0.95))\<rceil> = 6"
  unfolding float64_1653 by (simp add: ceiling_eq_iff)





subsection \<open>Support-structure selection\<close>

text \<open>
  C7. For every water depth \<open>d\<close>, \<open>check_supp\<close> returns monopile when \<open>d < 25\<close>, jacket
  when \<open>25 \<le> d < 55\<close> and floating when \<open>d \<ge> 55\<close>, so floating at the boundary 55; and for
  each of the three reference years the support cost of \<open>calc_equip_cost\<close>, called with
  the selected structure, is computed from that year's coefficients of this same
  selection.
\<close>

theorem check_supp_bands:
  "(d < 25 \<longrightarrow> check_supp d = Some ''monopile'')
   \<and> (25 \<le> d \<and> d < 55 \<longrightarrow> check_supp d = Some ''jacket'')
   \<and> (55 \<le> d \<longrightarrow> check_supp d = Some ''floating'')
   \<and> check_supp 55 = Some ''floating''
   \<and> (\<forall>y \<in> {2030, 2040, 2050}. \<forall>coeff. support_structure_coeff y = Some coeff \<longrightarrow>
        (\<exists>s c1 c2 c3 tc. check_supp d = Some s \<and> map_of coeff s = Some (c1, c2, c3)
           \<and> turbine_coeff y = Some tc
           \<and> calc_equip_cost y d (check_supp d) ice cap
               = Inr (cap * (c1 * d\<^sup>2 + c2 * d + c3 * 1000) * (1 / 1000000),
                      cap * (if ice = 1 then tc * (1 + 0.4 * 0.5714) else tc) * (1 / 1000000))))"
  by (auto simp: check_supp_def calc_equip_cost_def support_structure_coeff_def
      turbine_coeff_def Let_def)

theorem check_supp_bands_witness:
  "check_supp 10 = Some ''monopile'' \<and> check_supp 25 = Some ''jacket''
   \<and> check_supp 60 = Some ''floating''
   \<and> fst (projr (calc_equip_cost 2040 25 (check_supp 25) 0 15))
       = 15 * (100 * 25\<^sup>2 + (- 1986) * 25 + 375 * 1000) * (1 / 1000000)"
  using check_supp_bands [of 10 0 15] check_supp_bands [of 25 0 15] check_supp_bands [of 60 0 15]
  by (simp add: support_structure_coeff_def check_supp_def calc_equip_cost_def
      turbine_coeff_def)

subsection \<open>Hub activation coupling\<close>

text \<open>
  C5. For every hub, an assignment that satisfies the activation constraint and the
  capacity-limit constraint, with a binary activation value, has: capacity above the zero
  threshold implies activation 1; activation 0 implies capacity at most the zero
  threshold; and the capacity never exceeds the hub capacity limit.
\<close>

theorem eh_activation_coupling:
  assumes "binary_domain (eh_active_bin_var model eh)"
    and "eh_active_rule model eh"
    and "max_eh_cap_rule model eh"
  shows "(eh_cap_var model eh > zero_th \<longrightarrow> eh_active_bin_var model eh = 1)
         \<and> (eh_active_bin_var model eh = 0 \<longrightarrow> eh_cap_var model eh \<le> zero_th)
         \<and> eh_cap_var model eh \<le> eh_cap_lim"
  using assms
  by (auto simp: binary_domain_def eh_active_rule_def max_eh_cap_rule_def)

theorem eh_activation_coupling_witness:
  "binary_domain (eh_active_bin_var \<lparr>eh_cap_var = (\<lambda>_. 800), eh_active_bin_var = (\<lambda>_. 1)\<rparr> 7)
   \<and> eh_active_rule \<lparr>eh_cap_var = (\<lambda>_. 800), eh_active_bin_var = (\<lambda>_. 1)\<rparr> 7
   \<and> max_eh_cap_rule \<lparr>eh_cap_var = (\<lambda>_. 800), eh_active_bin_var = (\<lambda>_. 1)\<rparr> 7
   \<and> eh_cap_var \<lparr>eh_cap_var = (\<lambda>_. 800), eh_active_bin_var = (\<lambda>_. 1)\<rparr> 7 > zero_th
   \<and> eh_active_bin_var \<lparr>eh_cap_var = (\<lambda>_. 800), eh_active_bin_var = (\<lambda>_. 1)\<rparr> 7 = 1"
proof -
  let ?m = "\<lparr>eh_cap_var = (\<lambda>_. 800), eh_active_bin_var = (\<lambda>_. 1)\<rparr> :: hub_assignment"
  have b: "binary_domain (eh_active_bin_var ?m 7)"
    by (simp add: binary_domain_def)
  have a: "eh_active_rule ?m 7"
    by (simp add: eh_active_rule_def eh_cap_lim_def zero_th_def)
  have c: "max_eh_cap_rule ?m 7"
    by (simp add: max_eh_cap_rule_def eh_cap_lim_def)
  from eh_activation_coupling [OF b a c] b a c show ?thesis
    by (simp add: zero_th_def)
qed

subsection \<open>Viable connections\<close>














subsection \<open>Viable sets and countries\<close>

lemma haversine_same_lon:
  assumes "\<bar>lat2 - lat1\<bar> \<le> 180"
  shows "haversine exact_ops lon lat1 lon lat2 = 6371 * \<bar>radians lat2 - radians lat1\<bar>"
proof -
  define x where "x = (radians lat2 - radians lat1) / 2"
  have x: "\<bar>x\<bar> \<le> pi / 2"
  proof -
    have "x = (lat2 - lat1) * (pi / 360)" by (simp add: x_def radians_def field_simps)
    then have "\<bar>x\<bar> = \<bar>(lat2 - lat1) * (pi / 360)\<bar>" by (rule arg_cong)
    also have "\<dots> = \<bar>lat2 - lat1\<bar> * (pi / 360)" by (simp only: abs_mult) simp
    also have "\<dots> \<le> 180 * (pi / 360)" using assms by (intro mult_right_mono) simp_all
    finally show ?thesis by simp
  qed
  have "sqrt ((sin x)\<^sup>2) = \<bar>sin x\<bar>" by simp
  also have "\<dots> = sin \<bar>x\<bar>"
  proof (cases "0 \<le> x")
    case True
    from True x pi_gt_zero have "x \<le> pi" by linarith
    with True have "0 \<le> sin x" by (rule sin_ge_zero)
    with True show ?thesis by simp
  next
    case False
    from False x pi_gt_zero have "0 \<le> - x" "- x \<le> pi" by linarith+
    then have "0 \<le> sin (- x)" by (rule sin_ge_zero)
    with False show ?thesis by simp
  qed
  finally have "arcsin (sqrt ((sin x)\<^sup>2)) = arcsin (sin \<bar>x\<bar>)" by simp
  also have "\<dots> = \<bar>x\<bar>"
  proof (rule arcsin_sin)
    from pi_gt_zero show "- (pi / 2) \<le> \<bar>x\<bar>" by linarith
    from x show "\<bar>x\<bar> \<le> pi / 2" .
  qed
  finally have "2 * arcsin (sqrt ((sin x)\<^sup>2)) * 6371 = 6371 * \<bar>radians lat2 - radians lat1\<bar>"
    by (simp add: x_def)
  then show ?thesis
    by (simp add: haversine_def exact_ops_def Let_def x_def)
qed

lemma haversine_half_degree: "haversine exact_ops 11 (54.5) 11 55 \<le> 500"
proof -
  have "haversine exact_ops 11 (54.5) 11 55 = 6371 * \<bar>radians 55 - radians (54.5)\<bar>"
    by (rule haversine_same_lon) simp
  also have "\<dots> = 6371 * (pi / 360)" by (simp add: radians_def)
  also have "\<dots> \<le> 500" using pi_less_4 by simp
  finally show ?thesis .
qed

text \<open>
  C3. The code breaks the claim: with cross-border pooling disabled
  (\<open>cross_border = 0\<close>), a German wind farm and a Danish substation half a degree of
  latitude apart (about 56 km, far inside the threshold of 500) form a viable WF to ONSS
  connection, although their country parameters differ (1 and 2). The viable sets are
  computed from the coordinates alone; the docstrings of the four \<open>find_viable_*\<close>
  functions promise pairs of the same country.
\<close>

theorem cross_country_pair_viable:
  "opt_model_viable exact_ops 0
     [\<lparr>row_id = 1, row_iso = ''DE'', row_lon = 11, row_lat = 54.5,
       row_cap = 300, row_cost_1 = 900, row_cost_2 = 800, row_cost_3 = 700\<rparr>]
     []
     [\<lparr>row_id = 2, row_iso = ''DK'', row_lon = 11, row_lat = 55, row_thold = 500\<rparr>]
   = Inr \<lparr>viable_ec1_ids = [], viable_ec2_ids = [], viable_ec3_ids = [(1, 2)],
          viable_onc_ids = [], wf_iso = [(1, 1)], eh_iso = [], onss_iso = [(2, 2)]\<rparr>"
  using haversine_half_degree
  by (simp add: opt_model_viable_def iso_to_int_mp_def params_in_domain_def Param_within_def
      Param_within_int_def NonNegativeReals_def NonNegativeIntegers_def
      find_viable_ec1_def find_viable_ec2_def find_viable_ec3_def find_viable_onc_def
      keys_def getitem_def)

subsection \<open>Lower bounds over the stages\<close>

lemma fold_index_update:
  "fold (\<lambda>index lb. if P index then lb(vn := (lb vn)(index := f index)) else lb) ixs lb
     = (\<lambda>vn' i. if vn' = vn \<and> i \<in> set ixs \<and> P i then f i else lb vn' i)"
  by (induction ixs arbitrary: lb) (auto simp: fun_eq_iff)

lemma fold_name_update:
  "fold (\<lambda>vn lb. (\<lambda>vn' i. if vn' = vn \<and> i \<in> set (ix vn) \<and> P vn i then f vn i else lb vn' i))
      vns lb
     = (\<lambda>vn' i. if vn' \<in> set vns \<and> i \<in> set (ix vn') \<and> P vn' i then f vn' i else lb vn' i)"
  by (induction vns arbitrary: lb) (auto simp: fun_eq_iff)

text \<open>
  What \<open>enforce_increase_variables\<close> does to one variable: the bound becomes the
  recorded capacity when that exceeds the zero threshold, and stays otherwise.
\<close>

lemma enforce_increase_variables_apply:
  "enforce_increase_variables indices prev_capacity lb var_name index =
     (let prev_cap = (case map_of (prev_capacity var_name) index of None \<Rightarrow> 0 | Some p \<Rightarrow> p)
      in if var_name \<in> set capacity_vars \<and> index \<in> set (indices var_name)
            \<and> real_of_int prev_cap > zero_th
         then real_of_int prev_cap else lb var_name index)"
  unfolding enforce_increase_variables_def Let_def fold_index_update fold_name_update
  by simp

lemma map_of_record_capacity:
  "map_of (record_capacity indices val var_name) index =
     (if index \<in> set (indices var_name) \<and> val var_name index > zero_th
      then Some (py_round (val var_name index)) else None)"
proof -
  have "map_of (map (\<lambda>k. (k, f k)) xs) k = (if k \<in> set xs then Some (f k) else None)"
    for f :: "index \<Rightarrow> int" and xs k
    by (induction xs) auto
  then show ?thesis
    by (simp add: record_capacity_def)
qed

lemma py_round_10_4: "py_round (52 / 5) = 10"
  by (simp add: py_round_def)

text \<open>
  The solver of the run below keeps to every lower bound it is given: it returns the
  larger of the bound and 10.4 in 2030, and the bound itself in the later years.
\<close>

lemma example_solver_respects_bounds:
  "respects_bounds (\<lambda>var_name. if var_name = ''wf_cap_var'' then [Entity 1] else [])
     (\<lambda>year lb. (Status_ok, \<lambda>var_name index.
        if year = 2030 then max (lb var_name index) 10.4 else lb var_name index))"
  by (simp add: respects_bounds_def)

text \<open>
  C2. The code breaks the claim: a wind-farm capacity solved as 10.4 in 2030 is recorded
  as \<open>round(10.4) = 10\<close>, the lower bound for 2040 is 10, and the 2040 solution of 10,
  which keeps to all lower bounds, is below the value of 2030, both stages solved with
  status ok. The docstrings of \<open>enforce_increase_variables\<close> and \<open>solve_multi_stage\<close>
  promise capacities that only increase.
\<close>

theorem solved_value_can_decrease:
  "stage_status (solve_multi_stage
        (\<lambda>var_name. if var_name = ''wf_cap_var'' then [Entity 1] else [])
        (\<lambda>year lb. (Status_ok, \<lambda>var_name index.
           if year = 2030 then max (lb var_name index) 10.4 else lb var_name index)) ! 0) = Status_ok
   \<and> stage_status (solve_multi_stage
        (\<lambda>var_name. if var_name = ''wf_cap_var'' then [Entity 1] else [])
        (\<lambda>year lb. (Status_ok, \<lambda>var_name index.
           if year = 2030 then max (lb var_name index) 10.4 else lb var_name index)) ! 1) = Status_ok
   \<and> stage_value (solve_multi_stage
        (\<lambda>var_name. if var_name = ''wf_cap_var'' then [Entity 1] else [])
        (\<lambda>year lb. (Status_ok, \<lambda>var_name index.
           if year = 2030 then max (lb var_name index) 10.4 else lb var_name index)) ! 0)
        ''wf_cap_var'' (Entity 1) = 10.4
   \<and> stage_lb (solve_multi_stage
        (\<lambda>var_name. if var_name = ''wf_cap_var'' then [Entity 1] else [])
        (\<lambda>year lb. (Status_ok, \<lambda>var_name index.
           if year = 2030 then max (lb var_name index) 10.4 else lb var_name index)) ! 0)
        ''wf_cap_var'' (Entity 1) = 10
   \<and> stage_value (solve_multi_stage
        (\<lambda>var_name. if var_name = ''wf_cap_var'' then [Entity 1] else [])
        (\<lambda>year lb. (Status_ok, \<lambda>var_name index.
           if year = 2030 then max (lb var_name index) 10.4 else lb var_name index)) ! 1)
        ''wf_cap_var'' (Entity 1) = 10
   \<and> stage_value (solve_multi_stage
        (\<lambda>var_name. if var_name = ''wf_cap_var'' then [Entity 1] else [])
        (\<lambda>year lb. (Status_ok, \<lambda>var_name index.
           if year = 2030 then max (lb var_name index) 10.4 else lb var_name index)) ! 1)
        ''wf_cap_var'' (Entity 1)
     < stage_value (solve_multi_stage
        (\<lambda>var_name. if var_name = ''wf_cap_var'' then [Entity 1] else [])
        (\<lambda>year lb. (Status_ok, \<lambda>var_name index.
           if year = 2030 then max (lb var_name index) 10.4 else lb var_name index)) ! 0)
        ''wf_cap_var'' (Entity 1)"
  by (simp add: solve_multi_stage_def Let_def
      enforce_increase_variables_apply map_of_record_capacity py_round_10_4
      zero_th_def capacity_vars_def)

subsection \<open>Sign of the costs\<close>

lemma present_value_single_nonneg:
  assumes "discounting (pv y)" "0 \<le> a" "0 \<le> b" "0 \<le> c" "0 \<le> d"
  shows "0 \<le> present_value_single pv y a b c d"
  using assms by (simp add: present_value_single_def discounting_def)

lemma onss_cost_lin_factor:
  "onss_cost_lin pv y capacity threshold
     = (pv_equip (pv y) + 0.015 * pv_ope (pv y)) * 0.02287 * (capacity - threshold)"
  by (simp add: onss_cost_lin_def present_value_single_def algebra_simps)

lemma onss_cost_lin_sign:
  assumes "discounting (pv y)"
  shows "(threshold \<le> capacity \<longrightarrow> 0 \<le> onss_cost_lin pv y capacity threshold)
    \<and> (capacity < threshold \<longrightarrow> onss_cost_lin pv y capacity threshold < 0)
    \<and> onss_cost_lin pv y threshold threshold = 0
    \<and> (0 \<le> threshold \<longrightarrow> max 0 (onss_cost_lin pv y 0 threshold) = 0)"
proof -
  define K where "K = (pv_equip (pv y) + 0.015 * pv_ope (pv y)) * 0.02287"
  have k: "0 < K"
    using assms by (simp add: K_def discounting_def add_pos_nonneg)
  have eq: "onss_cost_lin pv y c t = K * (c - t)" for c t
    by (simp add: onss_cost_lin_factor K_def)
  have a: "threshold \<le> capacity \<longrightarrow> 0 \<le> onss_cost_lin pv y capacity threshold"
    unfolding eq using k by simp
  have b: "capacity < threshold \<longrightarrow> onss_cost_lin pv y capacity threshold < 0"
    unfolding eq using k by (simp add: mult_less_0_iff)
  have c: "onss_cost_lin pv y threshold threshold = 0"
    unfolding eq by simp
  have d: "max 0 (onss_cost_lin pv y 0 threshold) = 0" if "0 \<le> threshold"
  proof (rule max_absorb1)
    from that k have "0 \<le> K * threshold" by simp
    then show "onss_cost_lin pv y 0 threshold \<le> 0" unfolding eq by simp
  qed
  from a b c d show ?thesis by blast
qed

lemma wf_cost_lin_sign:
  "(0 \<le> wf_cost \<and> 0 < wf_total_cap \<and> 0 \<le> wf_cap \<longrightarrow>
      (\<exists>v. wf_cost_lin wf_cost wf_total_cap wf_cap = Inr v \<and> 0 \<le> v))
   \<and> (wf_total_cap \<noteq> 0 \<longrightarrow> wf_cost_lin wf_cost wf_total_cap 0 = Inr 0)"
  by (simp add: wf_cost_lin_def)

lemma cable_cost_fun_nonneg:
  assumes "discounting (pv y)" "f = ''lin'' \<or> f = ''ceil''" "0 \<le> d" "0 \<le> c"
  shows "(\<exists>v. ec1_cost_fun pv y d c f = Inr v \<and> 0 \<le> v)
         \<and> (\<exists>v. ec2_cost_fun pv y d c f = Inr v \<and> 0 \<le> v)
         \<and> (\<exists>v. ec3_cost_fun pv y d c f = Inr v \<and> 0 \<le> v)
         \<and> (\<exists>v. onc_cost_fun pv y d c f = Inr v \<and> 0 \<le> v)"
proof -
  let ?ratio = "float_div c (float_mul 348 (float64 0.95))"
  have "0 \<le> float_mul 348 (float64 0.95)"
    unfolding float_mul_def by (intro float64_nonneg mult_nonneg_nonneg) simp_all
  with assms have n: "0 \<le> ?ratio"
    unfolding float_div_def by (intro float64_nonneg divide_nonneg_nonneg)
  then have "-1 < ?ratio" by linarith
  then have m: "0 \<le> real_of_int \<lceil>?ratio\<rceil>" by simp
  from assms(2) show ?thesis
  proof
    assume "f = ''lin''"
    with assms n show ?thesis
      unfolding ec1_cost_fun_def ec2_cost_fun_def ec3_cost_fun_def onc_cost_fun_def Let_def
      by simp (intro conjI present_value_single_nonneg; simp)
  next
    assume "f = ''ceil''"
    with assms m show ?thesis
      unfolding ec1_cost_fun_def ec2_cost_fun_def ec3_cost_fun_def onc_cost_fun_def Let_def
      by simp (intro conjI present_value_single_nonneg; simp)
  qed
qed

lemma cable_cost_fun_zero:
  assumes "f = ''lin'' \<or> f = ''ceil''"
  shows "ec1_cost_fun pv y d 0 f = Inr 0 \<and> ec2_cost_fun pv y d 0 f = Inr 0
         \<and> ec3_cost_fun pv y d 0 f = Inr 0 \<and> onc_cost_fun pv y d 0 f = Inr 0"
  using assms
  by (auto simp: ec1_cost_fun_def ec2_cost_fun_def ec3_cost_fun_def onc_cost_fun_def
      present_value_single_def float_div_def float64_zero)

text \<open>
  C1, as stated, fails for the onshore substation: with a threshold of 100 and zero
  capacity \<open>onss_cost_lin\<close> is negative, not 0 (here with undiscounted factors and 25
  operating years; the sign is the same for all discount factors, see
  \<open>onss_cost_lin_sign\<close>).
\<close>

theorem onss_cost_lin_negative_at_zero:
  "onss_cost_lin (\<lambda>_. \<lparr>pv_equip = 1, pv_inst = 1, pv_ope = 25, pv_deco = 1\<rparr>) 2040 0 100 < 0
   \<and> onss_cost_lin (\<lambda>_. \<lparr>pv_equip = 1, pv_inst = 1, pv_ope = 25, pv_deco = 1\<rparr>) 2040 0 100 \<noteq> 0"
  by (simp add: onss_cost_lin_def present_value_single_def)

text \<open>
  C1, amended. With positive discount factors: \<open>wf_cost_lin\<close> and the four cable cost
  functions return 0 at zero capacity and a non-negative cost on non-negative inputs (a
  non-zero rated capacity, a form 'lin' or 'ceil'). \<open>onss_cost_lin\<close> is linear in
  capacity minus threshold: it is 0 at the threshold, non-negative from the threshold
  on and negative below it; clamped with \<open>max(0, .)\<close>, as result extraction does, it is 0
  at zero capacity.
\<close>

theorem cost_zero_and_nonneg:
  assumes "discounting (pv y)"
  shows "(threshold \<le> capacity \<longrightarrow> 0 \<le> onss_cost_lin pv y capacity threshold)
    \<and> (capacity < threshold \<longrightarrow> onss_cost_lin pv y capacity threshold < 0)
    \<and> onss_cost_lin pv y threshold threshold = 0
    \<and> (0 \<le> threshold \<longrightarrow> max 0 (onss_cost_lin pv y 0 threshold) = 0)
    \<and> (0 \<le> wf_cost \<and> 0 < wf_total_cap \<and> 0 \<le> wf_cap \<longrightarrow>
         (\<exists>v. wf_cost_lin wf_cost wf_total_cap wf_cap = Inr v \<and> 0 \<le> v))
    \<and> (wf_total_cap \<noteq> 0 \<longrightarrow> wf_cost_lin wf_cost wf_total_cap 0 = Inr 0)
    \<and> ((f = ''lin'' \<or> f = ''ceil'') \<and> 0 \<le> d \<and> 0 \<le> c \<longrightarrow>
         (\<exists>v. ec1_cost_fun pv y d c f = Inr v \<and> 0 \<le> v)
         \<and> (\<exists>v. ec2_cost_fun pv y d c f = Inr v \<and> 0 \<le> v)
         \<and> (\<exists>v. ec3_cost_fun pv y d c f = Inr v \<and> 0 \<le> v)
         \<and> (\<exists>v. onc_cost_fun pv y d c f = Inr v \<and> 0 \<le> v))
    \<and> (f = ''lin'' \<or> f = ''ceil'' \<longrightarrow>
         ec1_cost_fun pv y d 0 f = Inr 0 \<and> ec2_cost_fun pv y d 0 f = Inr 0
         \<and> ec3_cost_fun pv y d 0 f = Inr 0 \<and> onc_cost_fun pv y d 0 f = Inr 0)"
  using assms
    onss_cost_lin_sign [where pv = pv and y = y and threshold = threshold and capacity = capacity]
    wf_cost_lin_sign [of wf_cost wf_total_cap wf_cap]
    cable_cost_fun_nonneg [where pv = pv and y = y and f = f and d = d and c = c]
    cable_cost_fun_zero [where pv = pv and y = y and f = f and d = d]
  by blast

theorem cost_zero_and_nonneg_witness:
  "discounting \<lparr>pv_equip = 1, pv_inst = 1, pv_ope = 25, pv_deco = 1\<rparr>
   \<and> 0 \<le> onss_cost_lin (\<lambda>_. \<lparr>pv_equip = 1, pv_inst = 1, pv_ope = 25, pv_deco = 1\<rparr>) 2040 150 100
   \<and> onss_cost_lin (\<lambda>_. \<lparr>pv_equip = 1, pv_inst = 1, pv_ope = 25, pv_deco = 1\<rparr>) 2040 50 100 < 0
   \<and> (\<exists>v. wf_cost_lin 900 300 150 = Inr v \<and> 0 \<le> v)
   \<and> wf_cost_lin 900 300 0 = Inr 0
   \<and> (\<exists>v. ec1_cost_fun (\<lambda>_. \<lparr>pv_equip = 1, pv_inst = 1, pv_ope = 25, pv_deco = 1\<rparr>)
             2040 100 500 ''ceil'' = Inr v \<and> 0 \<le> v)
   \<and> onc_cost_fun (\<lambda>_. \<lparr>pv_equip = 1, pv_inst = 1, pv_ope = 25, pv_deco = 1\<rparr>)
        2040 100 0 ''ceil'' = Inr 0"
proof -
  let ?pv = "\<lambda>_::int. \<lparr>pv_equip = 1, pv_inst = 1, pv_ope = 25, pv_deco = 1\<rparr>"
  have h: "discounting (?pv 2040)" by (simp add: discounting_def)
  from h
    cost_zero_and_nonneg [where pv = ?pv and y = 2040 and threshold = 100 and capacity = 150
      and wf_cost = 900 and wf_total_cap = 300 and wf_cap = 150 and f = "''ceil''"
      and d = 100 and c = 500]
    cost_zero_and_nonneg [where pv = ?pv and y = 2040 and threshold = 100 and capacity = 50
      and wf_cost = 900 and wf_total_cap = 300 and wf_cap = 150 and f = "''ceil''"
      and d = 100 and c = 500]
  show ?thesis by simp
qed

subsection \<open>Turbine-size snapping\<close>

lemma nearest_wt_cap_16: "nearest_wt_cap 16 = 30"
  by (simp add: nearest_wt_cap_def wt_cap_def)

text \<open>
  C6, as stated, fails: the solved capacity 16 is reported as 30, although the multiple
  15 is nearer to it.
\<close>

theorem nearest_wt_cap_not_nearest:
  "nearest_wt_cap 16 = 30
   \<and> \<bar>real_of_int (1 * wt_cap) - 16\<bar> < \<bar>real_of_int (nearest_wt_cap 16) - 16\<bar>"
  by (simp add: nearest_wt_cap_16 wt_cap_def)

text \<open>
  C6, amended. For every solved capacity \<open>c \<ge> 0\<close> the capacity used for costing is \<open>c\<close>
  rounded up to a multiple of the unit turbine size 15: it is \<open>m * 15\<close> for a
  non-negative integer \<open>m\<close>, it is at least \<open>c\<close>, less than \<open>c + 15\<close>, and no multiple of 15
  that is at least \<open>c\<close> is smaller.
\<close>

theorem nearest_wt_cap_rounds_up:
  assumes "0 \<le> c"
  shows "(\<exists>m\<ge>0. nearest_wt_cap c = m * wt_cap)
         \<and> c \<le> real_of_int (nearest_wt_cap c)
         \<and> real_of_int (nearest_wt_cap c) < c + 15
         \<and> (\<forall>k. c \<le> real_of_int (k * wt_cap) \<longrightarrow> nearest_wt_cap c \<le> k * wt_cap)"
proof -
  let ?m = "\<lceil>c / 15\<rceil>"
  have m: "nearest_wt_cap c = ?m * 15"
    by (simp add: nearest_wt_cap_def wt_cap_def)
  have "0 \<le> c / 15" using assms by simp
  then have "-1 < c / 15" by linarith
  then have m0: "0 \<le> ?m" by simp
  have up: "c / 15 \<le> real_of_int ?m" by (rule le_of_int_ceiling)
  have lo: "real_of_int ?m < c / 15 + 1" using ceiling_correct [of "c / 15"] by linarith
  have least: "nearest_wt_cap c \<le> k * wt_cap" if "c \<le> real_of_int (k * wt_cap)" for k
  proof -
    from that have "c / 15 \<le> real_of_int k" by (simp add: wt_cap_def)
    then have "?m \<le> k" by (simp add: ceiling_le_iff)
    then show ?thesis by (simp add: m wt_cap_def)
  qed
  from m0 have "\<exists>m\<ge>0. nearest_wt_cap c = m * wt_cap"
    by (auto simp: m wt_cap_def)
  moreover have "c \<le> real_of_int (nearest_wt_cap c)"
    unfolding m using up by simp linarith
  moreover have "real_of_int (nearest_wt_cap c) < c + 15"
    unfolding m using lo by simp
  ultimately show ?thesis using least by blast
qed

theorem nearest_wt_cap_rounds_up_witness:
  "(0::real) \<le> 16 \<and> 16 \<le> real_of_int (nearest_wt_cap 16)
   \<and> real_of_int (nearest_wt_cap 16) < 16 + 15 \<and> nearest_wt_cap 16 \<le> 2 * wt_cap"
proof -
  have h: "(0::real) \<le> 16" by simp
  have k: "(16::real) \<le> real_of_int (2 * wt_cap)" by (simp add: wt_cap_def)
  from nearest_wt_cap_rounds_up [OF h] k h show ?thesis by blast
qed

subsection \<open>Cable cost classes\<close>


text \<open>
  The rounding shows at the capacities that are whole multiples of 330.6: the product
  \<open>348 * 0.95\<close> is rounded below 330.6, the quotient of 1653 by it above 5, and the
  'ceil' form counts six cables.
\<close>

lemma six_cables_at_1653: "parallel_cables_spec True 1653 = 6"
  using float64_1653
  by (simp add: parallel_cables_spec_def float_div_def float_mul_def ceiling_eq_iff)

text \<open>
  C9. The cost functions of the classes EH to ONSS and WF to ONSS are the same function:
  they agree for every reference year, distance, capacity and form.
\<close>

theorem ec2_ec3_equal:
  "ec2_cost_fun pv first_year distance capacity function
     = ec3_cost_fun pv first_year distance capacity function"
  by (simp add: ec2_cost_fun_def ec3_cost_fun_def)

text \<open>
  C10. Each of the four cable cost functions returns a cost when its form argument is
  'lin' or 'ceil', and for every other argument fails on the unassigned
  \<open>parallel_cables\<close>; so the failure happens exactly when the precondition is violated.
\<close>

theorem cable_form_precondition:
  "(f = ''lin'' \<or> f = ''ceil'' \<longrightarrow>
      (\<exists>v. ec1_cost_fun pv y d c f = Inr v) \<and> (\<exists>v. ec2_cost_fun pv y d c f = Inr v)
      \<and> (\<exists>v. ec3_cost_fun pv y d c f = Inr v) \<and> (\<exists>v. onc_cost_fun pv y d c f = Inr v))
   \<and> (f \<noteq> ''lin'' \<and> f \<noteq> ''ceil'' \<longrightarrow>
      ec1_cost_fun pv y d c f = Inl UnboundLocalError
      \<and> ec2_cost_fun pv y d c f = Inl UnboundLocalError
      \<and> ec3_cost_fun pv y d c f = Inl UnboundLocalError
      \<and> onc_cost_fun pv y d c f = Inl UnboundLocalError)"
  by (simp add: ec1_cost_fun_def ec2_cost_fun_def ec3_cost_fun_def onc_cost_fun_def Let_def)

theorem cable_form_precondition_witness:
  "(\<exists>v. ec1_cost_fun (\<lambda>_. \<lparr>pv_equip = 1, pv_inst = 1, pv_ope = 25, pv_deco = 1\<rparr>)
          2040 100 500 ''ceil'' = Inr v)
   \<and> (\<exists>v. onc_cost_fun (\<lambda>_. \<lparr>pv_equip = 1, pv_inst = 1, pv_ope = 25, pv_deco = 1\<rparr>)
          2040 100 500 ''lin'' = Inr v)
   \<and> ec2_cost_fun (\<lambda>_. \<lparr>pv_equip = 1, pv_inst = 1, pv_ope = 25, pv_deco = 1\<rparr>)
        2040 100 500 ''floor'' = Inl UnboundLocalError
   \<and> ec3_cost_fun (\<lambda>_. \<lparr>pv_equip = 1, pv_inst = 1, pv_ope = 25, pv_deco = 1\<rparr>)
        2040 100 500 '''' = Inl UnboundLocalError"
proof -
  let ?pv = "\<lambda>_::int. \<lparr>pv_equip = 1, pv_inst = 1, pv_ope = 25, pv_deco = 1\<rparr>"
  from cable_form_precondition [of "''ceil''" ?pv 2040 100 500]
    cable_form_precondition [of "''lin''" ?pv 2040 100 500]
    cable_form_precondition [of "''floor''" ?pv 2040 100 500]
    cable_form_precondition [of "''''" ?pv 2040 100 500]
  show ?thesis by simp
qed

end
